theory Spec2Isabelle
  imports Main "HOL-Library.Sublist"
begin

section \<open>JavaScript values as the two programs see them\<close>

text \<open>
  Both programs handle JSON that came through \<^verbatim>\<open>response.json()\<close> or that goes into
  \<^verbatim>\<open>JSON.stringify\<close>, typed \<^verbatim>\<open>any\<close> in the source. A value is one of the JSON
  shapes or \<^verbatim>\<open>undefined\<close>. The programs never compute with numbers; they only test
  them for truthiness and splice them into strings, so a number is kept as the text that
  JavaScript's own \<^verbatim>\<open>String(n)\<close> gives for it (\<^verbatim>\<open>3.0\<close> is \<open>''3''\<close>, both zeros
  are \<open>''0''\<close>). An object is the list of its own properties, keys distinct as
  \<^verbatim>\<open>JSON.parse\<close> leaves them. A string is a list of code units below 256.
\<close>

datatype jsval =
    JUndefined
  | JNull
  | JBool bool
  | JNum string
  | JStr string
  | JArr "jsval list"
  | JObj "(string \<times> jsval) list"

text \<open>Every value the programs throw is an \<^verbatim>\<open>Error\<close> instance; only its message is read.\<close>

datatype js_error = Thrown string

fun message :: "js_error \<Rightarrow> string" where
  "message (Thrown m) = m"

text \<open>Truthiness, as \<^verbatim>\<open>!x\<close>, \<^verbatim>\<open>x || y\<close> and \<^verbatim>\<open>x && y\<close> test it.\<close>

fun js_truthy :: "jsval \<Rightarrow> bool" where
  "js_truthy JUndefined = False"
| "js_truthy JNull = False"
| "js_truthy (JBool b) = b"
| "js_truthy (JNum n) = (n \<noteq> ''0'' \<and> n \<noteq> ''NaN'')"
| "js_truthy (JStr s) = (s \<noteq> [])"
| "js_truthy (JArr xs) = True"
| "js_truthy (JObj fs) = True"

text \<open>
  \<^verbatim>\<open>String(v)\<close>, which a template literal and \<^verbatim>\<open>new Error(v)\<close> apply to a value.
  An array joins its elements with commas, \<^verbatim>\<open>null\<close> and \<^verbatim>\<open>undefined\<close> elements
  giving the empty string. A parsed object prints as \<^verbatim>\<open>[object Object]\<close> through
  \<^verbatim>\<open>Object.prototype.toString\<close>, unless an own property \<^verbatim>\<open>toString\<close> shadows it: that
  property is not callable and \<^verbatim>\<open>valueOf\<close> gives back the object, so the conversion
  throws a TypeError (the message text is V8's).
\<close>

fun js_to_string :: "jsval \<Rightarrow> js_error + string"
  and js_join :: "jsval list \<Rightarrow> js_error + string" where
  "js_to_string JUndefined = Inr ''undefined''"
| "js_to_string JNull = Inr ''null''"
| "js_to_string (JBool b) = Inr (if b then ''true'' else ''false'')"
| "js_to_string (JNum n) = Inr n"
| "js_to_string (JStr s) = Inr s"
| "js_to_string (JArr xs) = js_join xs"
| "js_to_string (JObj fs) =
     (if ''toString'' \<in> set (map fst fs)
      then Inl (Thrown ''Cannot convert object to primitive value'')
      else Inr ''[object Object]'')"
| "js_join [] = Inr []"
| "js_join (x # xs) =
     (case (if x = JUndefined \<or> x = JNull then Inr [] else js_to_string x) of
        Inl e \<Rightarrow> Inl e
      | Inr s \<Rightarrow>
          (if xs = [] then Inr s
           else (case js_join xs of Inl e \<Rightarrow> Inl e | Inr t \<Rightarrow> Inr (s @ '','' @ t))))"

text \<open>
  Reading a property \<^verbatim>\<open>v.k\<close>. On \<^verbatim>\<open>null\<close> and \<^verbatim>\<open>undefined\<close> the read throws a
  TypeError (V8's text). The programs read only \<^verbatim>\<open>status\<close>, \<^verbatim>\<open>id\<close>, \<^verbatim>\<open>output\<close> and
  \<^verbatim>\<open>detail\<close>, which no prototype defines, so a value without such an own property
  gives \<^verbatim>\<open>undefined\<close>.
\<close>

fun js_get :: "jsval \<Rightarrow> string \<Rightarrow> js_error + jsval" where
  "js_get JUndefined k =
     Inl (Thrown (''Cannot read properties of undefined (reading '' @ [CHR 0x27] @ k @ [CHR 0x27] @ '')''))"
| "js_get JNull k =
     Inl (Thrown (''Cannot read properties of null (reading '' @ [CHR 0x27] @ k @ [CHR 0x27] @ '')''))"
| "js_get (JObj fs) k = Inr (case map_of fs k of None \<Rightarrow> JUndefined | Some v \<Rightarrow> v)"
| "js_get v k = Inr JUndefined"

section \<open>Backend registry and payload builders\<close>

text \<open>
  \<^verbatim>\<open>MODELS\<close> has exactly two entries; \<^verbatim>\<open>selectedModelId\<close> is only ever set to one of
  their keys.
\<close>

datatype model_id = LtxVideo | Wan25

record options =
  opt_version :: "string option"
  opt_guidanceScale :: string
  opt_enhancePrompt :: bool

record ModelConfig =
  id' :: string
  name :: string
  description :: string
  version :: "string option"
  endpoint :: string
  payloadBuilder :: "string \<Rightarrow> options \<Rightarrow> jsval"
  defaultGuidance :: string

definition negative_prompt :: string where
  "negative_prompt = ''low quality, worst quality, deformed, distorted, watermark''"

definition ltx_payloadBuilder :: "string \<Rightarrow> options \<Rightarrow> jsval" where
  "ltx_payloadBuilder prompt opts =
     JObj [(''version'', (case opt_version opts of None \<Rightarrow> JUndefined | Some v \<Rightarrow> JStr v)),
           (''input'', JObj [(''prompt'', JStr prompt),
                             (''aspect_ratio'', JStr ''16:9''),
                             (''negative_prompt'', JStr negative_prompt),
                             (''guidance_scale'', JNum (opt_guidanceScale opts))])]"

definition wan_payloadBuilder :: "string \<Rightarrow> options \<Rightarrow> jsval" where
  "wan_payloadBuilder prompt opts =
     JObj [(''input'', JObj [(''prompt'', JStr prompt),
                             (''aspect_ratio'', JStr ''16:9''),
                             (''negative_prompt'', JStr negative_prompt),
                             (''guidance_scale'', JNum (opt_guidanceScale opts)),
                             (''enable_prompt_expansion'', JBool (opt_enhancePrompt opts))])]"

fun MODELS :: "model_id \<Rightarrow> ModelConfig" where
  "MODELS LtxVideo =
     \<lparr> id' = ''ltx-video'',
       name = ''Lightricks LTX Video'',
       description = ''Fast, high-quality video generation'',
       version = Some ''8c47da666861d081eeb4d1261853087de23923a268a69b63febdf5dc1dee08e4'',
       endpoint = ''/api/replicate/predictions'',
       payloadBuilder = ltx_payloadBuilder,
       defaultGuidance = ''3'' \<rparr>"
| "MODELS Wan25 =
     \<lparr> id' = ''wan-2.5'',
       name = ''Wan 2.5 (Alibaba)'',
       description = ''Advanced Chinese/English T2V model'',
       version = None,
       endpoint = ''/api/replicate/models/wan-video/wan-2.5-t2v/predictions'',
       payloadBuilder = wan_payloadBuilder,
       defaultGuidance = ''5'' \<rparr>"

text \<open>Every property name that occurs anywhere inside a value.\<close>

fun js_keys :: "jsval \<Rightarrow> string set"
  and js_keys_list :: "jsval list \<Rightarrow> string set"
  and js_keys_fields :: "(string \<times> jsval) list \<Rightarrow> string set" where
  "js_keys (JArr xs) = js_keys_list xs"
| "js_keys (JObj fs) = js_keys_fields fs"
| "js_keys v = {}"
| "js_keys_list [] = {}"
| "js_keys_list (x # xs) = js_keys x \<union> js_keys_list xs"
| "js_keys_fields [] = {}"
| "js_keys_fields (f # fs) = insert (fst f) (js_keys (snd f)) \<union> js_keys_fields fs"

section \<open>The client: \<^verbatim>\<open>handleGenerate\<close>\<close>

text \<open>
  The component state behind the \<^verbatim>\<open>useState\<close> hooks. \<^verbatim>\<open>videoUrl\<close> holds whatever
  \<^verbatim>\<open>setVideoUrl\<close> was given, which is a value of an upstream response. The guidance
  scale is a number, kept as its text.
\<close>

record ui_state =
  selectedModelId :: model_id
  inputText :: string
  videoUrl :: jsval
  loading :: bool
  error :: string
  status :: string
  guidanceScale :: string
  enhancePrompt :: bool

text \<open>\<^verbatim>\<open>import.meta.env\<close> of the client bundle; an unset variable reads \<^verbatim>\<open>undefined\<close>.\<close>

record client_env =
  VITE_REPLICATE_API_TOKEN :: "string option"

text \<open>
  What \<^verbatim>\<open>fetch\<close> is called with. \<open>req_body = Some v\<close> stands for the body
  \<^verbatim>\<open>JSON.stringify(v)\<close>; the serialisation itself is not modelled.
\<close>

record request =
  req_url :: string
  req_method :: string
  req_headers :: "(string \<times> string) list"
  req_body :: "jsval option"

text \<open>
  What \<^verbatim>\<open>fetch\<close> comes back with: the promise rejects with an error message, or it
  resolves to a response. \<open>resp_body\<close> is what \<^verbatim>\<open>response.json()\<close> does: \<open>Inr v\<close> the
  parsed value, \<open>Inl m\<close> a rejection with message \<open>m\<close> (a body that is not JSON).
\<close>

record response =
  resp_status :: nat
  resp_body :: "string + jsval"

datatype fetch_result = Rejected string | Resolved response

definition ok :: "response \<Rightarrow> bool" where
  "ok r = (200 \<le> resp_status r \<and> resp_status r \<le> 299)"

text \<open>
  The effects of a run that reach outside the component, in the order they happen:
  a call of \<^verbatim>\<open>fetch\<close>, and a timer of so many milliseconds awaited to its end. Logging to
  the console is left out.
\<close>

datatype effect = Fetch request | Sleep nat

text \<open>
  How an asynchronous block ends: it runs to its end, it throws, or it stays suspended on
  a \<^verbatim>\<open>fetch\<close> that never settles. The responses of the network are a script, read in
  order; when the script is used up the next \<^verbatim>\<open>fetch\<close> never settles.
\<close>

datatype 'a completion = Returns 'a | Throws js_error | Suspends

text \<open>
  \<^verbatim>\<open>String.prototype.trim\<close> removes white space and line terminators at both ends; these
  are the ones below 256.
\<close>

definition js_whitespace :: "char \<Rightarrow> bool" where
  "js_whitespace c =
     (c \<in> {CHR 0x09, CHR 0x0A, CHR 0x0B, CHR 0x0C, CHR 0x0D, CHR 0x20, CHR 0xA0})"

definition js_trim :: "string \<Rightarrow> string" where
  "js_trim s = rev (dropWhile js_whitespace (rev (dropWhile js_whitespace s)))"

definition bearer :: "client_env \<Rightarrow> string" where
  "bearer env =
     ''Bearer '' @ (case VITE_REPLICATE_API_TOKEN env of None \<Rightarrow> ''undefined'' | Some t \<Rightarrow> t)"

definition submit_request :: "client_env \<Rightarrow> ModelConfig \<Rightarrow> jsval \<Rightarrow> request" where
  "submit_request env modelConfig payload =
     \<lparr> req_url = endpoint modelConfig,
       req_method = ''POST'',
       req_headers = [(''Content-Type'', ''application/json''), (''Authorization'', bearer env)],
       req_body = Some payload \<rparr>"

text \<open>
  The error thrown for a response that is not \<^verbatim>\<open>ok\<close>:
  \<^verbatim>\<open>const err = await response.json(); throw new Error(err.detail || fallback)\<close>.
\<close>

definition failure_of :: "response \<Rightarrow> string \<Rightarrow> js_error" where
  "failure_of r fallback =
     (case resp_body r of
        Inl m \<Rightarrow> Thrown m
      | Inr err \<Rightarrow>
          (case js_get err ''detail'' of
             Inl e \<Rightarrow> e
           | Inr d \<Rightarrow>
               (if js_truthy d
                then (case js_to_string d of Inl e \<Rightarrow> e | Inr m \<Rightarrow> Thrown m)
                else Thrown fallback)))"

text \<open>Awaiting a \<^verbatim>\<open>fetch\<close>, the \<^verbatim>\<open>ok\<close> test, and \<^verbatim>\<open>await response.json()\<close>.\<close>

fun receive :: "fetch_result \<Rightarrow> string \<Rightarrow> js_error + jsval" where
  "receive (Rejected m) fallback = Inl (Thrown m)"
| "receive (Resolved r) fallback =
     (if \<not> ok r then Inl (failure_of r fallback)
      else (case resp_body r of Inl m \<Rightarrow> Inl (Thrown m) | Inr v \<Rightarrow> Inr v))"

text \<open>The argument of \<^verbatim>\<open>setStatus\<close>: \<^verbatim>\<open>`Generation ${prediction.status}...`\<close>.\<close>

definition status_line :: "jsval \<Rightarrow> js_error + string" where
  "status_line prediction =
     (case js_get prediction ''status'' of
        Inl e \<Rightarrow> Inl e
      | Inr s \<Rightarrow>
          (case js_to_string s of
             Inl e \<Rightarrow> Inl e
           | Inr t \<Rightarrow> Inr (''Generation '' @ t @ ''...'')))"

text \<open>The guard of the \<^verbatim>\<open>while\<close> loop, on the value of \<^verbatim>\<open>prediction.status\<close>.\<close>

definition non_terminal :: "jsval \<Rightarrow> bool" where
  "non_terminal s =
     (s \<noteq> JStr ''succeeded'' \<and> s \<noteq> JStr ''failed'' \<and> s \<noteq> JStr ''canceled'')"

text \<open>
  What both the submission and every poll do with their response (lines 106 to 112 and
  127 to 133): throw when it is not \<^verbatim>\<open>ok\<close>, else parse it into \<^verbatim>\<open>prediction\<close> and call
  \<^verbatim>\<open>setStatus\<close>.
\<close>

definition observe :: "fetch_result \<Rightarrow> string \<Rightarrow> ui_state \<Rightarrow> js_error + jsval \<times> ui_state" where
  "observe r fallback st =
     (case receive r fallback of
        Inl e \<Rightarrow> Inl e
      | Inr prediction \<Rightarrow>
          (case status_line prediction of
             Inl e \<Rightarrow> Inl e
           | Inr line \<Rightarrow> Inr (prediction, st\<lparr>status := line\<rparr>)))"

text \<open>The effects \<open>es\<close> happen, then the rest of the run.\<close>

definition after ::
  "effect list \<Rightarrow> 'a \<times> ui_state \<times> effect list \<Rightarrow> 'a \<times> ui_state \<times> effect list" where
  "after es r = (case r of (c, st, tr) \<Rightarrow> (c, st, es @ tr))"

text \<open>The path of the poll request: \<^verbatim>\<open>`/api/replicate/predictions/${prediction.id}`\<close>.\<close>

definition poll_url :: "jsval \<Rightarrow> js_error + string" where
  "poll_url prediction =
     (case js_get prediction ''id'' of
        Inl e \<Rightarrow> Inl e
      | Inr i \<Rightarrow>
          (case js_to_string i of
             Inl e \<Rightarrow> Inl e
           | Inr t \<Rightarrow> Inr (''/api/replicate/predictions/'' @ t)))"

definition poll_request :: "client_env \<Rightarrow> string \<Rightarrow> request" where
  "poll_request env u =
     \<lparr> req_url = u,
       req_method = ''GET'',
       req_headers = [(''Authorization'', bearer env)],
       req_body = None \<rparr>"

text \<open>
  The \<^verbatim>\<open>while\<close> loop. Each round awaits the 2000 ms timer, builds the poll request from
  \<^verbatim>\<open>prediction.id\<close>, fetches, and replaces \<^verbatim>\<open>prediction\<close> by the parsed response. The
  result is how the loop ends (with the last \<^verbatim>\<open>prediction\<close> when the guard fails), the
  state, and the effects of the loop.
\<close>

fun poll_loop ::
  "client_env \<Rightarrow> jsval \<Rightarrow> fetch_result list \<Rightarrow> ui_state \<Rightarrow>
     jsval completion \<times> ui_state \<times> effect list" where
  "poll_loop env prediction script st =
     (case js_get prediction ''status'' of
        Inl e \<Rightarrow> (Throws e, st, [])
      | Inr s \<Rightarrow>
          if \<not> non_terminal s then (Returns prediction, st, [])
          else
            (case poll_url prediction of
               Inl e \<Rightarrow> (Throws e, st, [Sleep 2000])
             | Inr u \<Rightarrow>
                 after [Sleep 2000, Fetch (poll_request env u)]
                   (case script of
                      [] \<Rightarrow> (Suspends, st, [])
                    | pollResponse # rest \<Rightarrow>
                        (case observe pollResponse ''Failed to poll status'' st of
                           Inl e \<Rightarrow> (Throws e, st, [])
                         | Inr (prediction', st') \<Rightarrow> poll_loop env prediction' rest st'))))"

text \<open>
  After the loop (lines 136 to 142): \<^verbatim>\<open>Array.isArray(output) ? output[0] : output\<close>,
  where index 0 of an empty array is \<^verbatim>\<open>undefined\<close>; \<^verbatim>\<open>prediction.output\<close> is read only
  when the status is \<^verbatim>\<open>'succeeded'\<close>.
\<close>

fun resolve_output :: "jsval \<Rightarrow> jsval" where
  "resolve_output (JArr []) = JUndefined"
| "resolve_output (JArr (x # xs)) = x"
| "resolve_output output = output"

definition extract_url :: "jsval \<Rightarrow> js_error + jsval" where
  "extract_url prediction =
     (case js_get prediction ''status'' of
        Inl e \<Rightarrow> Inl e
      | Inr s \<Rightarrow>
          (case (if s = JStr ''succeeded'' then js_get prediction ''output'' else Inr JUndefined) of
             Inl e \<Rightarrow> Inl e
           | Inr output \<Rightarrow>
               if s = JStr ''succeeded'' \<and> js_truthy output then Inr (resolve_output output)
               else
                 (case js_to_string s of
                    Inl e \<Rightarrow> Inl e
                  | Inr t \<Rightarrow> Inl (Thrown (''Generation failed with status: '' @ t)))))"

fun finish ::
  "jsval completion \<times> ui_state \<times> effect list \<Rightarrow> unit completion \<times> ui_state \<times> effect list" where
  "finish (Suspends, st, tr) = (Suspends, st, tr)"
| "finish (Throws e, st, tr) = (Throws e, st, tr)"
| "finish (Returns prediction, st, tr) =
     (case extract_url prediction of
        Inl e \<Rightarrow> (Throws e, st, tr)
      | Inr url \<Rightarrow> (Returns (), st\<lparr>videoUrl := url\<rparr>, tr))"

text \<open>The body of the \<^verbatim>\<open>try\<close> block.\<close>

definition try_block ::
  "client_env \<Rightarrow> ui_state \<Rightarrow> fetch_result list \<Rightarrow> unit completion \<times> ui_state \<times> effect list" where
  "try_block env st script =
     (let modelConfig = MODELS (selectedModelId st);
          payload = payloadBuilder modelConfig (inputText st)
                      \<lparr> opt_version = version modelConfig,
                        opt_guidanceScale = guidanceScale st,
                        opt_enhancePrompt = enhancePrompt st \<rparr>
      in after [Fetch (submit_request env modelConfig payload)]
           (case script of
              [] \<Rightarrow> (Suspends, st, [])
            | resp # rest \<Rightarrow>
                (case observe resp ''Failed to start video generation'' st of
                   Inl e \<Rightarrow> (Throws e, st, [])
                 | Inr (prediction, st') \<Rightarrow> finish (poll_loop env prediction rest st'))))"

text \<open>
  \<^verbatim>\<open>handleGenerate\<close>, from the state of the render that created it and the script of
  the network. The outcome names the path taken: the early return of the empty-prompt
  check, the \<^verbatim>\<open>try\<close> block run to its end, the \<^verbatim>\<open>catch\<close> clause, or a run still
  suspended on a \<^verbatim>\<open>fetch\<close>.
\<close>

datatype outcome = Invalid | Completed | Caught js_error | Awaiting

text \<open>\<^verbatim>\<open>err.message || 'An error occurred while generating the video'\<close>.\<close>

definition shown_message :: "js_error \<Rightarrow> string" where
  "shown_message e =
     (if message e \<noteq> [] then message e else ''An error occurred while generating the video'')"

text \<open>The \<^verbatim>\<open>catch\<close> and \<^verbatim>\<open>finally\<close> clauses; a suspended run reaches neither.\<close>

fun settle ::
  "unit completion \<times> ui_state \<times> effect list \<Rightarrow> outcome \<times> ui_state \<times> effect list" where
  "settle (Suspends, st, tr) = (Awaiting, st, tr)"
| "settle (Returns u, st, tr) = (Completed, st\<lparr>loading := False, status := []\<rparr>, tr)"
| "settle (Throws e, st, tr) =
     (Caught e, st\<lparr>error := shown_message e, loading := False, status := []\<rparr>, tr)"

definition handleGenerate ::
  "client_env \<Rightarrow> ui_state \<Rightarrow> fetch_result list \<Rightarrow> outcome \<times> ui_state \<times> effect list" where
  "handleGenerate env st script =
     (if js_trim (inputText st) = []
      then (Invalid, st\<lparr>error := ''Please enter a description for your video''\<rparr>, [])
      else settle (try_block env
                     (st\<lparr>loading := True, error := [], videoUrl := JStr [],
                         status := ''Starting generation...''\<rparr>)
                     script))"

text \<open>The state of the first render, from the \<^verbatim>\<open>useState\<close> calls.\<close>

definition initial_state :: ui_state where
  "initial_state =
     \<lparr> selectedModelId = LtxVideo, inputText = [], videoUrl = JStr [], loading = False,
       error = [], status = [], guidanceScale = defaultGuidance (MODELS LtxVideo),
       enhancePrompt = True \<rparr>"

section \<open>The proxy: \<^verbatim>\<open>replicateProxy\<close>\<close>

text \<open>
  Where the handler looks for the token: \<^verbatim>\<open>process.env.REPLICATE_API_TOKEN\<close> and
  \<^verbatim>\<open>functions.config().replicate?.token\<close>, each a string or \<^verbatim>\<open>undefined\<close>.
\<close>

record proxy_config =
  REPLICATE_API_TOKEN :: "string option"
  config_replicate_token :: "string option"

text \<open>The fields of Express's \<^verbatim>\<open>req\<close>; the handler reads the first three.\<close>

record proxy_request =
  path :: string
  http_method :: string
  body :: jsval
  headers :: "(string \<times> string) list"

text \<open>\<^verbatim>\<open>res.send(text)\<close> sends the text as it is; \<^verbatim>\<open>res.json(v)\<close> sends \<open>v\<close> serialised.\<close>

datatype sent = Text string | Json jsval

record proxy_response =
  res_status :: nat
  res_sent :: sent

text \<open>\<^verbatim>\<open>a || b\<close> on the two sources: the first when it is a non-empty string.\<close>

definition apiToken :: "proxy_config \<Rightarrow> string option" where
  "apiToken cfg =
     (case REPLICATE_API_TOKEN cfg of
        None \<Rightarrow> config_replicate_token cfg
      | Some t \<Rightarrow> if t \<noteq> [] then Some t else config_replicate_token cfg)"

text \<open>
  \<^verbatim>\<open>req.path.replace(/^\/api\/replicate/, "") || req.path\<close>: the anchored pattern removes
  a leading \<^verbatim>\<open>/api/replicate\<close>; an empty result falls back to the path itself.
\<close>

definition targetPath :: "string \<Rightarrow> string" where
  "targetPath p =
     (let replaced = (if prefix ''/api/replicate'' p then drop (length ''/api/replicate'') p else p)
      in if replaced \<noteq> [] then replaced else p)"

definition targetUrl :: "string \<Rightarrow> string" where
  "targetUrl p = ''https://api.replicate.com/v1'' @ targetPath p"

definition upstream_request :: "string \<Rightarrow> proxy_request \<Rightarrow> request" where
  "upstream_request token req =
     \<lparr> req_url = targetUrl (path req),
       req_method = http_method req,
       req_headers =
         [(''Content-Type'', ''application/json''), (''Authorization'', ''Token '' @ token)],
       req_body =
         (if http_method req = ''POST'' \<or> http_method req = ''PUT'' then Some (body req) else None) \<rparr>"

text \<open>
  The handler, given the upstream service as a function from the request to what
  \<^verbatim>\<open>fetch\<close> comes back with. The result is the response sent and the requests that went
  upstream.
\<close>

definition replicateProxy ::
  "proxy_config \<Rightarrow> proxy_request \<Rightarrow> (request \<Rightarrow> fetch_result) \<Rightarrow>
     proxy_response \<times> request list" where
  "replicateProxy cfg req upstream =
     (case apiToken cfg of
        None \<Rightarrow>
          (\<lparr> res_status = 500,
             res_sent = Text ''Server configuration error: Missing API Token'' \<rparr>, [])
      | Some token \<Rightarrow>
          if token = [] then
            (\<lparr> res_status = 500,
               res_sent = Text ''Server configuration error: Missing API Token'' \<rparr>, [])
          else
            (let call = upstream_request token req;
                 failed = (\<lambda>m. \<lparr> res_status = 500,
                                 res_sent = Json (JObj [(''error'', JStr ''Failed to proxy request''),
                                                        (''details'', JStr m)]) \<rparr>)
             in case upstream call of
                  Rejected m \<Rightarrow> (failed m, [call])
                | Resolved r \<Rightarrow>
                    (case resp_body r of
                       Inl m \<Rightarrow> (failed m, [call])
                     | Inr data \<Rightarrow> (\<lparr> res_status = resp_status r, res_sent = Json data \<rparr>, [call]))))"

section \<open>Auxiliary definitions for the statements\<close>

text \<open>
  What a run suspended on a \<^verbatim>\<open>fetch\<close> does from the moment the response \<open>r\<close> arrives,
  up to the end of the loop: the same lines as in \<open>poll_loop\<close> and \<open>try_block\<close>, with
  the fallback message of the request that was pending.
\<close>

definition continue ::
  "client_env \<Rightarrow> string \<Rightarrow> fetch_result \<Rightarrow> fetch_result list \<Rightarrow> ui_state \<Rightarrow>
     jsval completion \<times> ui_state \<times> effect list" where
  "continue env fallback r later st =
     (case observe r fallback st of
        Inl e \<Rightarrow> (Throws e, st, [])
      | Inr (prediction, st') \<Rightarrow> poll_loop env prediction later st')"

text \<open>
  The fallback message of the pending request: the submission when no response has been
  read yet, a poll afterwards.
\<close>

definition fallback_for :: "fetch_result list \<Rightarrow> string" where
  "fallback_for pre =
     (if pre = [] then ''Failed to start video generation'' else ''Failed to poll status'')"

text \<open>
  A trace of the loop is paced when every timer is one of 2000 ms and is followed by
  exactly one \<^verbatim>\<open>fetch\<close> (or ends the trace), and no \<^verbatim>\<open>fetch\<close> comes without its timer.
\<close>

fun paced :: "effect list \<Rightarrow> bool" where
  "paced [] = True"
| "paced [Sleep n] = (n = 2000)"
| "paced (Sleep n # Fetch q # es) = (n = 2000 \<and> paced es)"
| "paced es = False"

text \<open>A request carries a token when the token occurs inside one of its header values.\<close>

definition carries_credential :: "string \<Rightarrow> request \<Rightarrow> bool" where
  "carries_credential token q = list_ex (\<lambda>h. sublist token (snd h)) (req_headers q)"

subsection \<open>Concrete inputs\<close>

definition scenario_env :: client_env where
  "scenario_env = \<lparr> VITE_REPLICATE_API_TOKEN = Some ''r8_secret'' \<rparr>"

definition scenario_unset_env :: client_env where
  "scenario_unset_env = \<lparr> VITE_REPLICATE_API_TOKEN = None \<rparr>"

definition scenario_state :: ui_state where
  "scenario_state = initial_state\<lparr>inputText := ''a cat riding a bicycle''\<rparr>"

definition scenario_polling_state :: ui_state where
  "scenario_polling_state =
     scenario_state\<lparr>loading := True, status := ''Generation starting...''\<rparr>"

definition scenario_submission :: request where
  "scenario_submission =
     submit_request scenario_env (MODELS LtxVideo)
       (ltx_payloadBuilder ''a cat riding a bicycle''
          \<lparr> opt_version = version (MODELS LtxVideo), opt_guidanceScale = ''3'',
            opt_enhancePrompt = True \<rparr>)"

definition scenario_unset_submission :: request where
  "scenario_unset_submission =
     submit_request scenario_unset_env (MODELS LtxVideo)
       (ltx_payloadBuilder ''a cat riding a bicycle''
          \<lparr> opt_version = version (MODELS LtxVideo), opt_guidanceScale = ''3'',
            opt_enhancePrompt = True \<rparr>)"

definition scenario_poll :: request where
  "scenario_poll = poll_request scenario_env ''/api/replicate/predictions/abc''"

definition scenario_starting :: response where
  "scenario_starting =
     \<lparr> resp_status = 201,
       resp_body = Inr (JObj [(''id'', JStr ''abc''), (''status'', JStr ''starting'')]) \<rparr>"

definition scenario_processing :: response where
  "scenario_processing =
     \<lparr> resp_status = 200,
       resp_body = Inr (JObj [(''id'', JStr ''abc''), (''status'', JStr ''processing'')]) \<rparr>"

definition scenario_succeeded :: response where
  "scenario_succeeded =
     \<lparr> resp_status = 200,
       resp_body = Inr (JObj [(''id'', JStr ''abc''), (''status'', JStr ''succeeded''),
                              (''output'', JArr [JStr ''https://cdn/x.mp4''])]) \<rparr>"

definition scenario_no_output :: response where
  "scenario_no_output =
     \<lparr> resp_status = 200,
       resp_body = Inr (JObj [(''id'', JStr ''abc''), (''status'', JStr ''succeeded'')]) \<rparr>"

definition scenario_empty_output :: response where
  "scenario_empty_output =
     \<lparr> resp_status = 200,
       resp_body = Inr (JObj [(''id'', JStr ''abc''), (''status'', JStr ''succeeded''),
                              (''output'', JArr [])]) \<rparr>"

definition scenario_no_credit :: response where
  "scenario_no_credit =
     \<lparr> resp_status = 402,
       resp_body = Inr (JObj [(''detail'', JStr ''insufficient credit'')]) \<rparr>"

definition scenario_no_detail :: response where
  "scenario_no_detail =
     \<lparr> resp_status = 502, resp_body = Inr (JObj [(''error'', JStr ''bad gateway'')]) \<rparr>"

text \<open>
  The reply of the proxy without a token, as the client receives it: status 500 and a
  text body, on which \<^verbatim>\<open>response.json()\<close> rejects (the message is V8's).
\<close>

definition scenario_not_json :: response where
  "scenario_not_json =
     \<lparr> resp_status = 500,
       resp_body = Inl ''Unexpected token S in JSON at position 0'' \<rparr>"

definition scenario_proxy :: proxy_config where
  "scenario_proxy = \<lparr> REPLICATE_API_TOKEN = Some ''r8_secret'', config_replicate_token = None \<rparr>"

definition scenario_unconfigured :: proxy_config where
  "scenario_unconfigured = \<lparr> REPLICATE_API_TOKEN = None, config_replicate_token = None \<rparr>"

definition scenario_incoming :: proxy_request where
  "scenario_incoming =
     \<lparr> path = ''/api/replicate/predictions/abc'', http_method = ''GET'', body = JUndefined,
       headers = [(''Authorization'', ''Bearer r8_secret'')] \<rparr>"

definition scenario_bare_prefix :: proxy_request where
  "scenario_bare_prefix =
     \<lparr> path = ''/api/replicate'', http_method = ''GET'', body = JUndefined, headers = [] \<rparr>"

definition scenario_upstream :: "request \<Rightarrow> fetch_result" where
  "scenario_upstream q = Resolved scenario_processing"

section \<open>Lemmas about the run\<close>

declare poll_loop.simps [simp del]

lemma after_eq: "after es x = (c, st, tr) \<longleftrightarrow> (\<exists>tr'. x = (c, st, tr') \<and> tr = es @ tr')"
  by (cases x) (auto simp: after_def)

lemma after_Nil: "after [] x = x"
  by (cases x) (simp add: after_def)

lemma after_after: "after es (after fs x) = after (es @ fs) x"
  by (cases x) (simp add: after_def)

lemma snd_after: "snd (snd (after es x)) = es @ snd (snd x)"
  by (cases x) (simp add: after_def)

lemma finish_after: "finish (after es x) = after es (finish x)"
proof (cases x)
  case (fields c st tr)
  then show ?thesis
    by (cases c) (simp_all add: after_def split: sum.splits)
qed

lemma settle_after: "settle (after es x) = after es (settle x)"
proof (cases x)
  case (fields c st tr)
  then show ?thesis
    by (cases c) (simp_all add: after_def)
qed

lemma finish_Suspends: "finish x = (Suspends, st, tr) \<longleftrightarrow> x = (Suspends, st, tr)"
proof (cases x)
  case (fields c st' tr')
  then show ?thesis
    by (cases c) (auto split: sum.splits)
qed

lemma settle_Awaiting: "settle x = (Awaiting, st, tr) \<longleftrightarrow> x = (Suspends, st, tr)"
proof (cases x)
  case (fields c st' tr')
  then show ?thesis
    by (cases c) auto
qed

lemma snd_finish: "snd (snd (finish x)) = snd (snd x)"
proof (cases x)
  case (fields c st tr)
  then show ?thesis by (cases c) (auto split: sum.splits)
qed

lemma snd_settle: "snd (snd (settle x)) = snd (snd x)"
proof (cases x)
  case (fields c st tr)
  then show ?thesis by (cases c) auto
qed

text \<open>
  A suspended run has read its whole script; with one more response it goes on from where
  it was suspended.
\<close>

lemma poll_loop_resume:
  "poll_loop env p pre st = (Suspends, st', tr) \<Longrightarrow>
   poll_loop env p (pre @ r # later) st =
     after tr (continue env ''Failed to poll status'' r later st')"
proof (induction pre arbitrary: p st tr)
  case Nil
  then show ?case
    by (auto simp: poll_loop.simps [of env p] continue_def after_eq after_Nil
             split: sum.splits if_splits)
next
  case (Cons x pre)
  from Cons.prems show ?case
    by (auto simp: poll_loop.simps [of env p] after_eq after_after Cons.IH
             split: sum.splits if_splits)
qed

lemma try_block_resume:
  assumes "try_block env st pre = (Suspends, st', tr)"
  shows "try_block env st (pre @ r # later) =
           after tr (finish (continue env (fallback_for pre) r later st'))"
proof (cases pre)
  case Nil
  with assms show ?thesis
    by (auto simp: try_block_def Let_def after_eq continue_def fallback_for_def
             split: sum.splits)
next
  case (Cons x pre')
  with assms show ?thesis
    by (auto simp: try_block_def Let_def after_eq finish_Suspends poll_loop_resume
                   finish_after after_after fallback_for_def
             split: sum.splits)
qed

lemma handleGenerate_resume:
  "handleGenerate env st pre = (Awaiting, st', tr) \<Longrightarrow>
   handleGenerate env st (pre @ r # later) =
     after tr (settle (finish (continue env (fallback_for pre) r later st')))"
  by (auto simp: handleGenerate_def settle_Awaiting try_block_resume settle_after
           split: if_splits)

lemma observe_ok:
  "ok r \<Longrightarrow> resp_body r = Inr p \<Longrightarrow> js_get p ''status'' = Inr s \<Longrightarrow> js_to_string s = Inr t \<Longrightarrow>
   observe (Resolved r) fb st = Inr (p, st\<lparr>status := ''Generation '' @ t @ ''...''\<rparr>)"
  by (simp add: observe_def status_line_def)

lemma observe_not_ok: "\<not> ok r \<Longrightarrow> observe (Resolved r) fb st = Inl (failure_of r fb)"
  by (simp add: observe_def)

lemma paced_poll_loop: "paced (snd (snd (poll_loop env p script st)))"
proof (induction env p script st rule: poll_loop.induct)
  case (1 env prediction script st)
  show ?case
    apply (subst poll_loop.simps)
    apply (auto split: sum.splits list.splits simp: after_def split_beta)
    using 1 apply (auto simp: after_def split_beta)
    done
qed

lemma poll_loop_continues:
  assumes "js_get p ''status'' = Inr s" and "non_terminal s" and "poll_url p = Inr u"
  shows "\<exists>x. poll_loop env p script st = after [Sleep 2000, Fetch (poll_request env u)] x
             \<and> paced (snd (snd x))"
proof -
  define x where "x = (case script of
                      [] \<Rightarrow> (Suspends, st, [])
                    | pollResponse # rest \<Rightarrow>
                        (case observe pollResponse ''Failed to poll status'' st of
                           Inl e \<Rightarrow> (Throws e, st, [])
                         | Inr (prediction', st') \<Rightarrow> poll_loop env prediction' rest st'))"
  have "paced (snd (snd x))"
    by (auto simp: x_def paced_poll_loop split: list.splits sum.splits)
  moreover have "poll_loop env p script st = after [Sleep 2000, Fetch (poll_request env u)] x"
    unfolding x_def using assms by (subst poll_loop.simps) simp
  ultimately show ?thesis by blast
qed

lemma poll_loop_stops:
  assumes "js_get p ''status'' = Inr s" and "\<not> non_terminal s"
  shows "poll_loop env p script st = (Returns p, st, [])"
  using assms by (subst poll_loop.simps) simp

text \<open>With a prompt that is not blank, the first effect is the submission, and only it.\<close>

lemma submission_pending:
  assumes "js_trim (inputText st) \<noteq> []"
  shows "\<exists>q. handleGenerate env st [] =
               (Awaiting,
                st\<lparr>loading := True, error := [], videoUrl := JStr [],
                   status := ''Starting generation...''\<rparr>,
                [Fetch q])
             \<and> req_url q = endpoint (MODELS (selectedModelId st))
             \<and> req_method q = ''POST''"
  using assms
  by (simp add: handleGenerate_def try_block_def Let_def after_def submit_request_def)

lemma scenario_run_awaits:
  "handleGenerate scenario_env scenario_state [Resolved scenario_starting] =
     (Awaiting, scenario_polling_state, [Fetch scenario_submission, Sleep 2000, Fetch scenario_poll])"
  by (simp add: handleGenerate_def try_block_def observe_def status_line_def ok_def
      scenario_env_def scenario_state_def scenario_starting_def initial_state_def
      scenario_polling_state_def scenario_submission_def scenario_poll_def
      js_trim_def js_whitespace_def poll_url_def non_terminal_def poll_loop.simps after_def)

lemma poll_loop_state:
  "poll_loop env p script st = (c, st', tr) \<Longrightarrow> \<exists>l. st' = st\<lparr>status := l\<rparr>"
proof (induction env p script st arbitrary: c st' tr rule: poll_loop.induct)
  case (1 env prediction script st)
  have same: "\<exists>l. st = st\<lparr>status := l\<rparr>"
    by (rule exI [of _ "status st"]) simp
  from "1.prems" show ?case
  proof (subst (asm) poll_loop.simps, simp split: sum.splits if_splits add: after_eq)
    fix s u
    assume a: "js_get prediction ''status'' = Inr s" "non_terminal s"
      "poll_url prediction = Inr u"
      and b: "\<exists>tr'. (case script of
                [] \<Rightarrow> (Suspends, st, [])
              | pollResponse # rest \<Rightarrow>
                  (case observe pollResponse ''Failed to poll status'' st of
                     Inl e \<Rightarrow> (Throws e, st, [])
                   | Inr (prediction', st') \<Rightarrow> poll_loop env prediction' rest st')) =
              (c, st', tr') \<and> tr = Sleep 2000 # Fetch (poll_request env u) # tr'"
    show "\<exists>l. st' = st\<lparr>status := l\<rparr>"
    proof (cases script)
      case Nil
      with b same show ?thesis by auto
    next
      case (Cons pollResponse rest)
      show ?thesis
      proof (cases "observe pollResponse ''Failed to poll status'' st")
        case (Inl e)
        with b Cons same show ?thesis by auto
      next
        case (Inr x)
        obtain p' st1 where x: "x = (p', st1)" by (cases x)
        from Inr x obtain l where st1: "st1 = st\<lparr>status := l\<rparr>"
          by (auto simp: observe_def split: sum.splits)
        from b Cons Inr x obtain tr' where "poll_loop env p' rest st1 = (c, st', tr')"
          by auto
        from "1.IH" [OF a(1) _ a(3) Cons Inr x [symmetric] this] a(2)
        obtain l' where "st' = st1\<lparr>status := l'\<rparr>" by auto
        with st1 show ?thesis by auto
      qed
    qed
  qed (use same in auto)
qed

lemma awaiting_state:
  assumes "handleGenerate env st pre = (Awaiting, st', tr)"
  shows "\<exists>l. st' = st\<lparr>loading := True, error := [], videoUrl := JStr [], status := l\<rparr>"
proof -
  define st0 where
    "st0 = st\<lparr>loading := True, error := [], videoUrl := JStr [], status := ''Starting generation...''\<rparr>"
  from assms have t: "try_block env st0 pre = (Suspends, st', tr)"
    by (auto simp: handleGenerate_def settle_Awaiting st0_def split: if_splits)
  show ?thesis
  proof (cases pre)
    case Nil
    with t have "st' = st0"
      by (auto simp: try_block_def Let_def after_eq)
    then show ?thesis
      by (auto simp: st0_def)
  next
    case (Cons x rest)
    with t obtain p st1 tr' where o: "observe x ''Failed to start video generation'' st0 = Inr (p, st1)"
      and l: "poll_loop env p rest st1 = (Suspends, st', tr')"
      by (auto simp: try_block_def Let_def after_eq finish_Suspends split: sum.splits)
    from o obtain l1 where "st1 = st0\<lparr>status := l1\<rparr>"
      by (auto simp: observe_def split: sum.splits)
    moreover from poll_loop_state [OF l] obtain l2 where "st' = st1\<lparr>status := l2\<rparr>"
      by auto
    ultimately show ?thesis
      by (auto simp: st0_def)
  qed
qed

text \<open>What a response that is not \<^verbatim>\<open>ok\<close> does to a run suspended on its request.\<close>

lemma rejected_response:
  assumes "handleGenerate env st pre = (Awaiting, st', tr)" and "\<not> ok r"
  shows "handleGenerate env st (pre @ Resolved r # later) =
           (Caught (failure_of r (fallback_for pre)),
            st'\<lparr>error := shown_message (failure_of r (fallback_for pre)),
                loading := False, status := []\<rparr>, tr)"
  by (simp add: handleGenerate_resume [OF assms(1)] continue_def observe_not_ok [OF assms(2)]
      after_def)

text \<open>What an \<^verbatim>\<open>ok\<close> response with a terminal status does to such a run.\<close>

lemma terminal_response:
  assumes "handleGenerate env st pre = (Awaiting, st', tr)"
    and "ok r" and "resp_body r = Inr p"
    and "js_get p ''status'' = Inr (JStr t)" and "\<not> non_terminal (JStr t)"
  shows "handleGenerate env st (pre @ Resolved r # later) =
           after tr (settle (finish (Returns p, st'\<lparr>status := ''Generation '' @ t @ ''...''\<rparr>, [])))"
proof -
  have "observe (Resolved r) (fallback_for pre) st' =
          Inr (p, st'\<lparr>status := ''Generation '' @ t @ ''...''\<rparr>)"
    by (rule observe_ok [OF assms(2-4)]) simp
  then have "continue env (fallback_for pre) (Resolved r) later st' =
          (Returns p, st'\<lparr>status := ''Generation '' @ t @ ''...''\<rparr>, [])"
    by (simp add: continue_def poll_loop_stops [OF assms(4,5)])
  then show ?thesis
    by (simp add: handleGenerate_resume [OF assms(1)])
qed

text \<open>Every request of the client carries the same \<^verbatim>\<open>Authorization\<close> header.\<close>

lemma poll_loop_fetches:
  "Fetch q \<in> set (snd (snd (poll_loop env p script st))) \<Longrightarrow>
   req_headers q = [(''Authorization'', bearer env)]"
proof (induction env p script st rule: poll_loop.induct)
  case (1 env prediction script st)
  from "1.prems" show ?case
    apply (subst (asm) poll_loop.simps)
    apply (auto split: sum.splits list.splits if_splits simp: snd_after poll_request_def)
    using "1.IH" apply auto
    done
qed

lemma try_block_headers:
  assumes "Fetch q \<in> set (snd (snd (try_block env st script)))"
  shows "req_headers q = [(''Content-Type'', ''application/json''),
                          (''Authorization'', bearer env)]
         \<or> req_headers q = [(''Authorization'', bearer env)]"
  using assms
  by (auto simp: try_block_def Let_def snd_after snd_finish submit_request_def
           split: list.splits sum.splits dest: poll_loop_fetches)

lemma handleGenerate_headers:
  assumes "Fetch q \<in> set (snd (snd (handleGenerate env st script)))"
  shows "req_headers q = [(''Content-Type'', ''application/json''),
                          (''Authorization'', bearer env)]
         \<or> req_headers q = [(''Authorization'', bearer env)]"
  using assms
  by (auto simp: handleGenerate_def snd_settle split: if_splits dest: try_block_headers)

lemma scenario_unset_run:
  "handleGenerate scenario_unset_env scenario_state [] =
     (Awaiting,
      scenario_state\<lparr>loading := True, status := ''Starting generation...''\<rparr>,
      [Fetch scenario_unset_submission])"
  by (simp add: handleGenerate_def try_block_def scenario_unset_env_def scenario_state_def
      initial_state_def scenario_unset_submission_def js_trim_def js_whitespace_def after_def)

section \<open>The claims\<close>

text \<open>
  C2. Polling goes on exactly while the observed status is none of \<^verbatim>\<open>succeeded\<close>,
  \<^verbatim>\<open>failed\<close> and \<^verbatim>\<open>canceled\<close>. Take a run suspended on a request, with effects \<open>tr\<close> so
  far, and let the response \<open>r\<close> to that request be \<^verbatim>\<open>ok\<close> and carry a prediction whose
  status is \<open>s\<close>. If \<open>s\<close> is not terminal, the run goes on with a timer of 2000 ms and
  then the status request for the prediction's id, whatever comes later, and everything
  after that is paced in the same way. If \<open>s\<close> is terminal, the run ends (it is not
  suspended) with no effect beyond \<open>tr\<close>, whatever further responses the network would
  give: no further poll request is issued.
\<close>

theorem polling_exactly_while_non_terminal:
  assumes run: "handleGenerate env st pre = (Awaiting, st', tr)"
    and r: "ok r" "resp_body r = Inr prediction"
    and s: "js_get prediction ''status'' = Inr s" "js_to_string s = Inr t"
  shows "(s \<noteq> JStr ''succeeded'' \<and> s \<noteq> JStr ''failed'' \<and> s \<noteq> JStr ''canceled'' \<longrightarrow>
            (\<forall>u. poll_url prediction = Inr u \<longrightarrow>
               (\<exists>c st'' tr'. handleGenerate env st (pre @ Resolved r # later) =
                   (c, st'', tr @ Sleep 2000 # Fetch (poll_request env u) # tr') \<and> paced tr')))
       \<and> (s = JStr ''succeeded'' \<or> s = JStr ''failed'' \<or> s = JStr ''canceled'' \<longrightarrow>
            (\<exists>c st''. handleGenerate env st (pre @ Resolved r # later) = (c, st'', tr)
                \<and> c \<noteq> Awaiting))"
proof (intro conjI impI allI)
  fix u
  assume nt: "s \<noteq> JStr ''succeeded'' \<and> s \<noteq> JStr ''failed'' \<and> s \<noteq> JStr ''canceled''"
    and u: "poll_url prediction = Inr u"
  from nt have "non_terminal s" by (simp add: non_terminal_def)
  from poll_loop_continues [OF s(1) this u]
  obtain x where
    "poll_loop env prediction later (st'\<lparr>status := ''Generation '' @ t @ ''...''\<rparr>) =
       after [Sleep 2000, Fetch (poll_request env u)] x"
    and p: "paced (snd (snd x))"
    by blast
  then have x: "continue env (fallback_for pre) (Resolved r) later st' =
                  after [Sleep 2000, Fetch (poll_request env u)] x"
    unfolding continue_def observe_ok [OF r s] by simp
  have "handleGenerate env st (pre @ Resolved r # later) =
          after (tr @ [Sleep 2000, Fetch (poll_request env u)]) (settle (finish x))"
    by (simp add: handleGenerate_resume [OF run] x finish_after settle_after after_after)
  moreover obtain c st'' tr' where y: "settle (finish x) = (c, st'', tr')"
    by (cases "settle (finish x)") auto
  moreover have "paced tr'"
    using p y by (metis snd_conv snd_finish snd_settle)
  ultimately show "\<exists>c st'' tr'. handleGenerate env st (pre @ Resolved r # later) =
                     (c, st'', tr @ Sleep 2000 # Fetch (poll_request env u) # tr') \<and> paced tr'"
    by (auto simp: after_def)
next
  assume "s = JStr ''succeeded'' \<or> s = JStr ''failed'' \<or> s = JStr ''canceled''"
  then have "\<not> non_terminal s" by (auto simp: non_terminal_def)
  from poll_loop_stops [OF s(1) this]
  have "continue env (fallback_for pre) (Resolved r) later st' =
          (Returns prediction, st'\<lparr>status := ''Generation '' @ t @ ''...''\<rparr>, [])"
    unfolding continue_def observe_ok [OF r s] by simp
  then have "handleGenerate env st (pre @ Resolved r # later) =
               after tr (settle (finish (Returns prediction,
                                         st'\<lparr>status := ''Generation '' @ t @ ''...''\<rparr>, [])))"
    by (simp add: handleGenerate_resume [OF run])
  then show "\<exists>c st''. handleGenerate env st (pre @ Resolved r # later) = (c, st'', tr)
               \<and> c \<noteq> Awaiting"
    by (auto simp: after_def split: sum.splits)
qed

theorem polling_exactly_while_non_terminal_witness:
  "handleGenerate scenario_env scenario_state [Resolved scenario_starting] =
     (Awaiting, scenario_polling_state, [Fetch scenario_submission, Sleep 2000, Fetch scenario_poll])
   \<and> ok scenario_processing \<and> ok scenario_succeeded
   \<and> (\<exists>c st'' tr'.
         handleGenerate scenario_env scenario_state
           ([Resolved scenario_starting] @ Resolved scenario_processing # []) =
           (c, st'',
            [Fetch scenario_submission, Sleep 2000, Fetch scenario_poll]
              @ Sleep 2000 # Fetch scenario_poll # tr')
         \<and> paced tr')
   \<and> (\<exists>c st''.
         handleGenerate scenario_env scenario_state
           ([Resolved scenario_starting] @ Resolved scenario_succeeded # [Resolved scenario_processing]) =
           (c, st'', [Fetch scenario_submission, Sleep 2000, Fetch scenario_poll])
         \<and> c \<noteq> Awaiting)"
proof -
  have a: "ok scenario_processing" and b: "ok scenario_succeeded"
    by (simp_all add: ok_def scenario_processing_def scenario_succeeded_def)
  have pa: "resp_body scenario_processing =
              Inr (JObj [(''id'', JStr ''abc''), (''status'', JStr ''processing'')])"
    by (simp add: scenario_processing_def)
  have pb: "resp_body scenario_succeeded =
              Inr (JObj [(''id'', JStr ''abc''), (''status'', JStr ''succeeded''),
                         (''output'', JArr [JStr ''https://cdn/x.mp4''])])"
    by (simp add: scenario_succeeded_def)
  have u: "poll_url (JObj [(''id'', JStr ''abc''), (''status'', JStr ''processing'')]) =
             Inr ''/api/replicate/predictions/abc''"
    by (simp add: poll_url_def)
  have "\<exists>c st'' tr'.
          handleGenerate scenario_env scenario_state
            ([Resolved scenario_starting] @ Resolved scenario_processing # []) =
            (c, st'',
             [Fetch scenario_submission, Sleep 2000, Fetch scenario_poll]
               @ Sleep 2000 # Fetch scenario_poll # tr')
          \<and> paced tr'"
    using polling_exactly_while_non_terminal
            [OF scenario_run_awaits a pa, of "JStr ''processing''" "''processing''" "[]"] u
    by (simp add: scenario_poll_def)
  moreover have "\<exists>c st''.
          handleGenerate scenario_env scenario_state
            ([Resolved scenario_starting] @ Resolved scenario_succeeded
               # [Resolved scenario_processing]) =
            (c, st'', [Fetch scenario_submission, Sleep 2000, Fetch scenario_poll])
          \<and> c \<noteq> Awaiting"
    using polling_exactly_while_non_terminal
            [OF scenario_run_awaits b pb, of "JStr ''succeeded''" "''succeeded''"
               "[Resolved scenario_processing]"]
    by simp
  ultimately show ?thesis
    using scenario_run_awaits a b by blast
qed

text \<open>
  C6. A prompt that is empty or made of white space only is rejected at once: the run
  takes the early return, sets the error message of the empty-prompt check and nothing
  else, and issues no request (its trace is empty), whatever the network would answer.
\<close>

theorem blank_prompt_rejected_without_request:
  assumes "\<forall>c \<in> set (inputText st). js_whitespace c"
  shows "handleGenerate env st script =
           (Invalid, st\<lparr>error := ''Please enter a description for your video''\<rparr>, [])"
proof -
  from assms have "dropWhile js_whitespace (inputText st) = []"
    by (simp add: dropWhile_eq_Nil_conv)
  then have "js_trim (inputText st) = []"
    by (simp add: js_trim_def del: dropWhile_eq_Nil_conv)
  then show ?thesis
    by (simp add: handleGenerate_def)
qed

theorem blank_prompt_rejected_without_request_witness:
  "js_whitespace (CHR 0x20) \<and> js_whitespace (CHR 0x09) \<and> js_whitespace (CHR 0x0A)
   \<and> handleGenerate scenario_env (initial_state\<lparr>inputText := [CHR 0x20, CHR 0x09, CHR 0x0A]\<rparr>)
       [Resolved scenario_starting] =
       (Invalid,
        initial_state\<lparr>inputText := [CHR 0x20, CHR 0x09, CHR 0x0A],
                      error := ''Please enter a description for your video''\<rparr>, [])
   \<and> handleGenerate scenario_env initial_state [Resolved scenario_starting] =
       (Invalid, initial_state\<lparr>error := ''Please enter a description for your video''\<rparr>, [])"
proof -
  have a: "\<forall>c \<in> set (inputText (initial_state\<lparr>inputText := [CHR 0x20, CHR 0x09, CHR 0x0A]\<rparr>)).
             js_whitespace c"
    by (simp add: js_whitespace_def)
  have b: "\<forall>c \<in> set (inputText initial_state). js_whitespace c"
    by (simp add: initial_state_def)
  have c: "js_whitespace (CHR 0x20) \<and> js_whitespace (CHR 0x09) \<and> js_whitespace (CHR 0x0A)"
    by (simp add: js_whitespace_def)
  show ?thesis
    using c blank_prompt_rejected_without_request [OF a, of scenario_env "[Resolved scenario_starting]"]
      blank_prompt_rejected_without_request [OF b, of scenario_env "[Resolved scenario_starting]"]
    by simp
qed

text \<open>
  C7. A proxy without a configured credential (neither source holds a non-empty token)
  answers every request with status 500 and the fixed text
  \<^verbatim>\<open>Server configuration error: Missing API Token\<close>, and sends nothing upstream. The
  answer differs from everything a configured proxy sends, which is always JSON: the
  upstream body relayed, or the error object of a failed relay.
\<close>

theorem missing_credential_fixed_500:
  assumes "REPLICATE_API_TOKEN cfg = None \<or> REPLICATE_API_TOKEN cfg = Some []"
    and "config_replicate_token cfg = None \<or> config_replicate_token cfg = Some []"
  shows "replicateProxy cfg req upstream =
           (\<lparr> res_status = 500,
              res_sent = Text ''Server configuration error: Missing API Token'' \<rparr>, [])
       \<and> (\<forall>cfg' token req' upstream'.
             apiToken cfg' = Some token \<and> token \<noteq> [] \<longrightarrow>
               (\<exists>v. res_sent (fst (replicateProxy cfg' req' upstream')) = Json v)
               \<and> fst (replicateProxy cfg' req' upstream') \<noteq> fst (replicateProxy cfg req upstream))"
proof -
  from assms have none: "apiToken cfg = None \<or> apiToken cfg = Some []"
    by (auto simp: apiToken_def)
  then have first: "replicateProxy cfg req upstream =
           (\<lparr> res_status = 500,
              res_sent = Text ''Server configuration error: Missing API Token'' \<rparr>, [])"
    by (auto simp: replicateProxy_def)
  have "\<exists>v. res_sent (fst (replicateProxy cfg' req' upstream')) = Json v"
    if "apiToken cfg' = Some token" and "token \<noteq> []" for cfg' token req' upstream'
    using that by (auto simp: replicateProxy_def Let_def split: fetch_result.splits sum.splits)
  with first show ?thesis
    by (metis fst_conv proxy_response.select_convs(2) sent.distinct(1))
qed

theorem missing_credential_fixed_500_witness:
  "(REPLICATE_API_TOKEN scenario_unconfigured = None
      \<or> REPLICATE_API_TOKEN scenario_unconfigured = Some [])
   \<and> (config_replicate_token scenario_unconfigured = None
      \<or> config_replicate_token scenario_unconfigured = Some [])
   \<and> replicateProxy scenario_unconfigured scenario_incoming scenario_upstream =
       (\<lparr> res_status = 500,
          res_sent = Text ''Server configuration error: Missing API Token'' \<rparr>, [])
   \<and> apiToken scenario_proxy = Some ''r8_secret''
   \<and> fst (replicateProxy scenario_proxy scenario_incoming scenario_upstream) \<noteq>
       fst (replicateProxy scenario_unconfigured scenario_incoming scenario_upstream)"
proof -
  have a: "REPLICATE_API_TOKEN scenario_unconfigured = None
             \<or> REPLICATE_API_TOKEN scenario_unconfigured = Some []"
    and b: "config_replicate_token scenario_unconfigured = None
             \<or> config_replicate_token scenario_unconfigured = Some []"
    by (simp_all add: scenario_unconfigured_def)
  have c: "apiToken scenario_proxy = Some ''r8_secret''"
    by (simp add: apiToken_def scenario_proxy_def)
  from missing_credential_fixed_500 [OF a b, of scenario_incoming scenario_upstream] c
  have "fst (replicateProxy scenario_proxy scenario_incoming scenario_upstream) \<noteq>
          fst (replicateProxy scenario_unconfigured scenario_incoming scenario_upstream)"
    by blast
  with missing_credential_fixed_500 [OF a b, of scenario_incoming scenario_upstream] a b c
  show ?thesis
    by blast
qed

text \<open>
  C9. The payload of the \<^verbatim>\<open>ltx-video\<close> backend has the properties \<^verbatim>\<open>version\<close> and
  \<^verbatim>\<open>input\<close>, the latter with the prompt, the two fixed fields and \<^verbatim>\<open>guidance_scale\<close>, and
  no other property at any depth: the prompt-enhancement flag is not in it, whatever the
  options say. The payload of the \<^verbatim>\<open>wan-2.5\<close> backend has no \<^verbatim>\<open>version\<close> and carries
  the flag of the options as \<^verbatim>\<open>enable_prompt_expansion\<close> inside \<^verbatim>\<open>input\<close>.
\<close>

theorem payload_has_only_supported_fields:
  "''enable_prompt_expansion'' \<notin> js_keys (payloadBuilder (MODELS LtxVideo) prompt opts)
   \<and> js_keys (payloadBuilder (MODELS LtxVideo) prompt opts) =
       {''version'', ''input'', ''prompt'', ''aspect_ratio'', ''negative_prompt'',
        ''guidance_scale''}
   \<and> js_keys (payloadBuilder (MODELS Wan25) prompt opts) =
       {''input'', ''prompt'', ''aspect_ratio'', ''negative_prompt'', ''guidance_scale'',
        ''enable_prompt_expansion''}
   \<and> (case js_get (payloadBuilder (MODELS Wan25) prompt opts) ''input'' of
         Inl e \<Rightarrow> False
       | Inr input \<Rightarrow>
           js_get input ''enable_prompt_expansion'' = Inr (JBool (opt_enhancePrompt opts))
           \<and> js_get input ''guidance_scale'' = Inr (JNum (opt_guidanceScale opts)))
   \<and> (case js_get (payloadBuilder (MODELS LtxVideo) prompt opts) ''input'' of
         Inl e \<Rightarrow> False
       | Inr input \<Rightarrow>
           js_get input ''enable_prompt_expansion'' = Inr JUndefined
           \<and> js_get input ''guidance_scale'' = Inr (JNum (opt_guidanceScale opts)))"
  by (auto simp: ltx_payloadBuilder_def wan_payloadBuilder_def split: option.splits)

text \<open>
  C8, as stated, fails for the path that is exactly the prefix: the replacement leaves
  the empty string, the \<^verbatim>\<open>|| req.path\<close> fallback puts the whole path back, and the
  request goes to \<^verbatim>\<open>https://api.replicate.com/v1/api/replicate\<close>, not to
  \<^verbatim>\<open>https://api.replicate.com/v1\<close> followed by the empty rest.
\<close>

theorem bare_prefix_is_not_stripped:
  "prefix ''/api/replicate'' (path scenario_bare_prefix)
   \<and> map req_url (snd (replicateProxy scenario_proxy scenario_bare_prefix scenario_upstream)) =
       [''https://api.replicate.com/v1/api/replicate'']
   \<and> map req_url (snd (replicateProxy scenario_proxy scenario_bare_prefix scenario_upstream)) \<noteq>
       [''https://api.replicate.com/v1''
          @ drop (length ''/api/replicate'') (path scenario_bare_prefix)]"
  by (simp add: replicateProxy_def apiToken_def scenario_proxy_def scenario_bare_prefix_def
      scenario_upstream_def scenario_processing_def upstream_request_def targetUrl_def
      targetPath_def Let_def)

text \<open>
  C8, amended. A configured proxy that receives a path made of the prefix
  \<^verbatim>\<open>/api/replicate\<close> and a rest sends exactly one request upstream; its URL is
  \<^verbatim>\<open>https://api.replicate.com/v1\<close> followed by the rest when the rest is not empty, and
  followed by the whole path \<^verbatim>\<open>/api/replicate\<close> when it is.
\<close>

theorem upstream_url_strips_prefix:
  assumes "apiToken cfg = Some token" and "token \<noteq> []"
    and "path req = ''/api/replicate'' @ subpath"
  shows "map req_url (snd (replicateProxy cfg req upstream)) =
           [''https://api.replicate.com/v1''
              @ (if subpath \<noteq> [] then subpath else ''/api/replicate'')]"
proof -
  have "targetPath (''/api/replicate'' @ subpath) =
          (if subpath \<noteq> [] then subpath else ''/api/replicate'')"
    by (simp add: targetPath_def)
  then have "req_url (upstream_request token req) =
          ''https://api.replicate.com/v1''
            @ (if subpath \<noteq> [] then subpath else ''/api/replicate'')"
    using assms(3) by (simp add: upstream_request_def targetUrl_def)
  then show ?thesis
    using assms(1,2)
    by (simp add: replicateProxy_def Let_def split: fetch_result.splits sum.splits)
qed

theorem upstream_url_strips_prefix_witness:
  "apiToken scenario_proxy = Some ''r8_secret'' \<and> ''r8_secret'' \<noteq> []
   \<and> path scenario_incoming = ''/api/replicate'' @ ''/predictions/abc''
   \<and> map req_url (snd (replicateProxy scenario_proxy scenario_incoming scenario_upstream)) =
       [''https://api.replicate.com/v1/predictions/abc'']"
proof -
  have a: "apiToken scenario_proxy = Some ''r8_secret''"
    by (simp add: apiToken_def scenario_proxy_def)
  have b: "''r8_secret'' \<noteq> []"
    by simp
  have c: "path scenario_incoming = ''/api/replicate'' @ ''/predictions/abc''"
    by (simp add: scenario_incoming_def)
  show ?thesis
    using a c upstream_url_strips_prefix [OF a b c, of scenario_upstream]
    by simp
qed

text \<open>
  C3, as stated, fails for a response whose body is not JSON, such as the 500 reply of
  the proxy without a token, which is plain text: \<^verbatim>\<open>await response.json()\<close> rejects
  before \<^verbatim>\<open>err.detail\<close> is read, and the message shown is the one of the parse error,
  not the generic fallback \<^verbatim>\<open>Failed to start video generation\<close>.
\<close>

theorem non_json_rejection_shows_parse_error:
  "\<not> ok scenario_not_json
   \<and> handleGenerate scenario_env scenario_state [Resolved scenario_not_json] =
       (Caught (Thrown ''Unexpected token S in JSON at position 0''),
        scenario_state\<lparr>error := ''Unexpected token S in JSON at position 0''\<rparr>,
        [Fetch scenario_submission])
   \<and> error (fst (snd (handleGenerate scenario_env scenario_state [Resolved scenario_not_json])))
       \<noteq> ''Failed to start video generation''"
  by (simp add: handleGenerate_def try_block_def observe_def failure_of_def ok_def
      scenario_env_def scenario_state_def scenario_not_json_def initial_state_def
      scenario_submission_def js_trim_def js_whitespace_def after_def shown_message_def)

text \<open>
  C3, amended. Take a run suspended on a request (the submission when nothing has been
  read yet, a poll otherwise) and a response to it whose HTTP status is not a success.
  The run goes straight to the \<^verbatim>\<open>catch\<close> clause: it ends with that error shown, the
  spinner and the status line cleared, and no effect beyond those before the response.
  When the body is JSON and its \<^verbatim>\<open>detail\<close> is truthy, the error message is the text of
  \<^verbatim>\<open>detail\<close> (the detail itself when it is a string). When the body is JSON and
  \<^verbatim>\<open>detail\<close> is absent or falsy, it is the generic message of the request,
  \<^verbatim>\<open>Failed to start video generation\<close> or \<^verbatim>\<open>Failed to poll status\<close>. When the body is
  not JSON, it is the message of the parse error.
\<close>

theorem rejection_fails_with_detail_or_fallback:
  assumes "handleGenerate env st pre = (Awaiting, st', tr)" and "\<not> ok r"
  shows "\<exists>e. handleGenerate env st (pre @ Resolved r # later) =
               (Caught e, st'\<lparr>error := shown_message e, loading := False, status := []\<rparr>, tr)
           \<and> (\<forall>err d m. resp_body r = Inr err \<and> js_get err ''detail'' = Inr d
                  \<and> js_truthy d \<and> js_to_string d = Inr m \<longrightarrow> e = Thrown m)
           \<and> (\<forall>err m. resp_body r = Inr err \<and> js_get err ''detail'' = Inr (JStr m) \<and> m \<noteq> []
                  \<longrightarrow> e = Thrown m \<and> shown_message e = m)
           \<and> (\<forall>err d. resp_body r = Inr err \<and> js_get err ''detail'' = Inr d \<and> \<not> js_truthy d
                  \<longrightarrow> e = Thrown (if pre = [] then ''Failed to start video generation''
                                   else ''Failed to poll status''))
           \<and> (\<forall>m. resp_body r = Inl m \<longrightarrow> e = Thrown m)"
proof (intro exI conjI allI impI)
  show "handleGenerate env st (pre @ Resolved r # later) =
          (Caught (failure_of r (fallback_for pre)),
           st'\<lparr>error := shown_message (failure_of r (fallback_for pre)),
               loading := False, status := []\<rparr>, tr)"
    by (rule rejected_response [OF assms])
qed (auto simp: failure_of_def fallback_for_def shown_message_def)

theorem rejection_fails_with_detail_or_fallback_witness:
  "handleGenerate scenario_env scenario_state [] =
     (Awaiting,
      scenario_state\<lparr>loading := True, status := ''Starting generation...''\<rparr>,
      [Fetch scenario_submission])
   \<and> \<not> ok scenario_no_credit
   \<and> resp_body scenario_no_credit = Inr (JObj [(''detail'', JStr ''insufficient credit'')])
   \<and> handleGenerate scenario_env scenario_state ([] @ Resolved scenario_no_credit # []) =
       (Caught (Thrown ''insufficient credit''),
        scenario_state\<lparr>error := ''insufficient credit''\<rparr>,
        [Fetch scenario_submission])
   \<and> \<not> ok scenario_no_detail
   \<and> handleGenerate scenario_env scenario_state
       ([Resolved scenario_starting] @ Resolved scenario_no_detail # []) =
       (Caught (Thrown ''Failed to poll status''),
        scenario_polling_state\<lparr>error := ''Failed to poll status'', loading := False,
                               status := []\<rparr>,
        [Fetch scenario_submission, Sleep 2000, Fetch scenario_poll])"
proof -
  have e: "\<not> ok scenario_no_detail"
    by (simp add: ok_def scenario_no_detail_def)
  have f: "resp_body scenario_no_detail = Inr (JObj [(''error'', JStr ''bad gateway'')])"
    by (simp add: scenario_no_detail_def)
  have g: "js_get (JObj [(''error'', JStr ''bad gateway'')]) ''detail'' = Inr JUndefined"
    by simp
  from rejection_fails_with_detail_or_fallback [OF scenario_run_awaits e, of "[]"] f g
  have poll: "handleGenerate scenario_env scenario_state
                ([Resolved scenario_starting] @ Resolved scenario_no_detail # []) =
              (Caught (Thrown ''Failed to poll status''),
               scenario_polling_state\<lparr>error := ''Failed to poll status'', loading := False,
                                      status := []\<rparr>,
               [Fetch scenario_submission, Sleep 2000, Fetch scenario_poll])"
    by (auto simp: shown_message_def)
  have a: "handleGenerate scenario_env scenario_state [] =
             (Awaiting,
              scenario_state\<lparr>loading := True, status := ''Starting generation...''\<rparr>,
              [Fetch scenario_submission])"
    by (simp add: handleGenerate_def try_block_def scenario_env_def scenario_state_def
        initial_state_def scenario_submission_def js_trim_def js_whitespace_def after_def)
  have b: "\<not> ok scenario_no_credit"
    by (simp add: ok_def scenario_no_credit_def)
  have c: "resp_body scenario_no_credit = Inr (JObj [(''detail'', JStr ''insufficient credit'')])"
    by (simp add: scenario_no_credit_def)
  have d: "js_get (JObj [(''detail'', JStr ''insufficient credit'')]) ''detail'' =
             Inr (JStr ''insufficient credit'')"
    by simp
  from rejection_fails_with_detail_or_fallback [OF a b, of "[]"] c d
  have "handleGenerate scenario_env scenario_state ([] @ Resolved scenario_no_credit # []) =
          (Caught (Thrown ''insufficient credit''),
           scenario_state\<lparr>loading := True, status := ''Starting generation...''\<rparr>
             \<lparr>error := ''insufficient credit'', loading := False, status := []\<rparr>,
           [Fetch scenario_submission])"
    by auto
  moreover have "scenario_state\<lparr>loading := True, status := ''Starting generation...''\<rparr>
                   \<lparr>error := ''insufficient credit'', loading := False, status := []\<rparr> =
                 scenario_state\<lparr>error := ''insufficient credit''\<rparr>"
    by (simp add: scenario_state_def initial_state_def)
  ultimately show ?thesis
    using a b c e poll by simp
qed

text \<open>
  C4. Take a run suspended on a request and an \<^verbatim>\<open>ok\<close> response to it whose prediction
  has the status \<^verbatim>\<open>succeeded\<close> and an output that is present, in the sense the code
  tests it: truthy, so neither missing nor \<^verbatim>\<open>null\<close>, \<^verbatim>\<open>false\<close>, zero or the empty
  string. The run then ends through the \<^verbatim>\<open>try\<close> block, with no further effect, and the
  media URL it sets is the first element of the output when the output is an array, and
  the output itself otherwise. Scenario A is the witness.
\<close>

theorem succeeded_output_resolves_url:
  assumes "handleGenerate env st pre = (Awaiting, st', tr)"
    and "ok r" and "resp_body r = Inr prediction"
    and "js_get prediction ''status'' = Inr (JStr ''succeeded'')"
    and "js_get prediction ''output'' = Inr output"
    and "js_truthy output"
  shows "handleGenerate env st (pre @ Resolved r # later) =
           (Completed,
            st'\<lparr>videoUrl := (case output of
                               JArr xs \<Rightarrow> (case xs of [] \<Rightarrow> JUndefined | x # ys \<Rightarrow> x)
                             | _ \<Rightarrow> output),
                loading := False, status := []\<rparr>,
            tr)"
proof -
  have "\<not> non_terminal (JStr ''succeeded'')"
    by (simp add: non_terminal_def)
  note run = terminal_response [OF assms(1-4) this, of later]
  have "resolve_output output =
          (case output of
             JArr xs \<Rightarrow> (case xs of [] \<Rightarrow> JUndefined | x # ys \<Rightarrow> x)
           | _ \<Rightarrow> output)"
    by (cases "output" rule: resolve_output.cases) simp_all
  then have "extract_url prediction =
          Inr (case output of
                 JArr xs \<Rightarrow> (case xs of [] \<Rightarrow> JUndefined | x # ys \<Rightarrow> x)
               | _ \<Rightarrow> output)"
    using assms(4-6) by (simp add: extract_url_def)
  then show ?thesis
    by (simp add: run after_def)
qed

theorem succeeded_output_resolves_url_witness:
  "handleGenerate scenario_env scenario_state [Resolved scenario_starting] =
     (Awaiting, scenario_polling_state, [Fetch scenario_submission, Sleep 2000, Fetch scenario_poll])
   \<and> ok scenario_succeeded
   \<and> resp_body scenario_succeeded =
       Inr (JObj [(''id'', JStr ''abc''), (''status'', JStr ''succeeded''),
                  (''output'', JArr [JStr ''https://cdn/x.mp4''])])
   \<and> js_truthy (JArr [JStr ''https://cdn/x.mp4''])
   \<and> handleGenerate scenario_env scenario_state
       ([Resolved scenario_starting] @ Resolved scenario_succeeded # []) =
       (Completed,
        scenario_polling_state\<lparr>videoUrl := JStr ''https://cdn/x.mp4'', loading := False,
                               status := []\<rparr>,
        [Fetch scenario_submission, Sleep 2000, Fetch scenario_poll])"
proof -
  have a: "ok scenario_succeeded"
    by (simp add: ok_def scenario_succeeded_def)
  have b: "resp_body scenario_succeeded =
             Inr (JObj [(''id'', JStr ''abc''), (''status'', JStr ''succeeded''),
                        (''output'', JArr [JStr ''https://cdn/x.mp4''])])"
    by (simp add: scenario_succeeded_def)
  have c: "js_truthy (JArr [JStr ''https://cdn/x.mp4''])"
    by simp
  show ?thesis
    using scenario_run_awaits a b c
      succeeded_output_resolves_url [OF scenario_run_awaits a b _ _ c, of "[]"]
    by simp
qed

text \<open>
  C5. Take a run suspended on a request and an \<^verbatim>\<open>ok\<close> response to it whose body is an
  object with the status \<^verbatim>\<open>succeeded\<close> and no \<^verbatim>\<open>output\<close> property. The run ends in the
  \<^verbatim>\<open>catch\<close> clause, showing \<^verbatim>\<open>Generation failed with status: succeeded\<close>, with no media
  URL set and no further effect.
\<close>

theorem succeeded_without_output_fails:
  assumes "handleGenerate env st pre = (Awaiting, st', tr)"
    and "ok r" and "resp_body r = Inr (JObj props)"
    and "map_of props ''status'' = Some (JStr ''succeeded'')"
    and "map_of props ''output'' = None"
  shows "handleGenerate env st (pre @ Resolved r # later) =
           (Caught (Thrown ''Generation failed with status: succeeded''),
            st'\<lparr>error := ''Generation failed with status: succeeded'',
                loading := False, status := []\<rparr>,
            tr)
         \<and> videoUrl st' = JStr []"
proof -
  have s: "js_get (JObj props) ''status'' = Inr (JStr ''succeeded'')"
    using assms(4) by simp
  have "\<not> non_terminal (JStr ''succeeded'')"
    by (simp add: non_terminal_def)
  note run = terminal_response [OF assms(1-3) s this, of later]
  have "extract_url (JObj props) = Inl (Thrown ''Generation failed with status: succeeded'')"
    using assms(4,5) by (simp add: extract_url_def)
  then have "handleGenerate env st (pre @ Resolved r # later) =
           (Caught (Thrown ''Generation failed with status: succeeded''),
            st'\<lparr>error := ''Generation failed with status: succeeded'',
                loading := False, status := []\<rparr>,
            tr)"
    by (simp add: run after_def shown_message_def)
  moreover from awaiting_state [OF assms(1)] have "videoUrl st' = JStr []"
    by auto
  ultimately show ?thesis
    by simp
qed

theorem succeeded_without_output_fails_witness:
  "handleGenerate scenario_env scenario_state [Resolved scenario_starting] =
     (Awaiting, scenario_polling_state, [Fetch scenario_submission, Sleep 2000, Fetch scenario_poll])
   \<and> ok scenario_no_output
   \<and> resp_body scenario_no_output =
       Inr (JObj [(''id'', JStr ''abc''), (''status'', JStr ''succeeded'')])
   \<and> map_of [(''id'', JStr ''abc''), (''status'', JStr ''succeeded'')] ''output'' = None
   \<and> handleGenerate scenario_env scenario_state
       ([Resolved scenario_starting] @ Resolved scenario_no_output # []) =
       (Caught (Thrown ''Generation failed with status: succeeded''),
        scenario_polling_state\<lparr>error := ''Generation failed with status: succeeded'',
                               loading := False, status := []\<rparr>,
        [Fetch scenario_submission, Sleep 2000, Fetch scenario_poll])"
proof -
  have a: "ok scenario_no_output"
    by (simp add: ok_def scenario_no_output_def)
  have b: "resp_body scenario_no_output =
             Inr (JObj [(''id'', JStr ''abc''), (''status'', JStr ''succeeded'')])"
    by (simp add: scenario_no_output_def)
  show ?thesis
    using scenario_run_awaits a b
      succeeded_without_output_fails [OF scenario_run_awaits a b, of "[]"]
    by simp
qed

text \<open>
  C10. Take a run suspended on a request and an \<^verbatim>\<open>ok\<close> response to it whose prediction
  has the status \<^verbatim>\<open>succeeded\<close> and the empty array as output. The empty array is
  truthy, so the run ends through the \<^verbatim>\<open>try\<close> block, not the \<^verbatim>\<open>catch\<close> clause: no
  error is shown, and the media URL is set to \<^verbatim>\<open>undefined\<close>, the element at index 0 of
  the empty array.
\<close>

theorem empty_output_takes_success_branch:
  assumes "handleGenerate env st pre = (Awaiting, st', tr)"
    and "ok r" and "resp_body r = Inr prediction"
    and "js_get prediction ''status'' = Inr (JStr ''succeeded'')"
    and "js_get prediction ''output'' = Inr (JArr [])"
  shows "handleGenerate env st (pre @ Resolved r # later) =
           (Completed, st'\<lparr>videoUrl := JUndefined, loading := False, status := []\<rparr>, tr)
         \<and> error st' = []"
proof -
  have "\<not> non_terminal (JStr ''succeeded'')"
    by (simp add: non_terminal_def)
  note run = terminal_response [OF assms(1-4) this, of later]
  have "extract_url prediction = Inr JUndefined"
    using assms(4,5) by (simp add: extract_url_def)
  then have "handleGenerate env st (pre @ Resolved r # later) =
           (Completed, st'\<lparr>videoUrl := JUndefined, loading := False, status := []\<rparr>, tr)"
    by (simp add: run after_def)
  moreover from awaiting_state [OF assms(1)] have "error st' = []"
    by auto
  ultimately show ?thesis
    by simp
qed

theorem empty_output_takes_success_branch_witness:
  "handleGenerate scenario_env scenario_state [Resolved scenario_starting] =
     (Awaiting, scenario_polling_state, [Fetch scenario_submission, Sleep 2000, Fetch scenario_poll])
   \<and> ok scenario_empty_output
   \<and> resp_body scenario_empty_output =
       Inr (JObj [(''id'', JStr ''abc''), (''status'', JStr ''succeeded''),
                  (''output'', JArr [])])
   \<and> handleGenerate scenario_env scenario_state
       ([Resolved scenario_starting] @ Resolved scenario_empty_output # []) =
       (Completed,
        scenario_polling_state\<lparr>videoUrl := JUndefined, loading := False, status := []\<rparr>,
        [Fetch scenario_submission, Sleep 2000, Fetch scenario_poll])
   \<and> error scenario_polling_state = []"
proof -
  have a: "ok scenario_empty_output"
    by (simp add: ok_def scenario_empty_output_def)
  have b: "resp_body scenario_empty_output =
             Inr (JObj [(''id'', JStr ''abc''), (''status'', JStr ''succeeded''),
                        (''output'', JArr [])])"
    by (simp add: scenario_empty_output_def)
  show ?thesis
    using scenario_run_awaits a b
      empty_output_takes_success_branch [OF scenario_run_awaits a b, of "[]"]
    by simp
qed

text \<open>
  C1, as stated, fails: the client puts an \<^verbatim>\<open>Authorization\<close> header, built from the
  variable \<^verbatim>\<open>VITE_REPLICATE_API_TOKEN\<close> of its own bundle, on the submission and on
  every poll. With that variable set to the token the proxy is configured with, both
  requests of the client carry the upstream credential.
\<close>

theorem client_requests_carry_token:
  "apiToken scenario_proxy = Some ''r8_secret''
   \<and> VITE_REPLICATE_API_TOKEN scenario_env = Some ''r8_secret''
   \<and> snd (snd (handleGenerate scenario_env scenario_state [Resolved scenario_starting])) =
       [Fetch scenario_submission, Sleep 2000, Fetch scenario_poll]
   \<and> carries_credential ''r8_secret'' scenario_submission
   \<and> carries_credential ''r8_secret'' scenario_poll
   \<and> map_of (req_headers scenario_submission) ''Authorization'' = Some ''Bearer r8_secret''
   \<and> map_of (req_headers scenario_poll) ''Authorization'' = Some ''Bearer r8_secret''"
proof -
  have "apiToken scenario_proxy = Some ''r8_secret''"
    by (simp add: apiToken_def scenario_proxy_def)
  moreover have "VITE_REPLICATE_API_TOKEN scenario_env = Some ''r8_secret''"
    by (simp add: scenario_env_def)
  moreover have "req_headers scenario_submission =
                   [(''Content-Type'', ''application/json''),
                    (''Authorization'', ''Bearer r8_secret'')]"
    and "req_headers scenario_poll = [(''Authorization'', ''Bearer r8_secret'')]"
    by (simp_all add: scenario_submission_def scenario_poll_def submit_request_def
        poll_request_def bearer_def scenario_env_def)
  ultimately show ?thesis
    by (simp add: scenario_run_awaits carries_credential_def sublist_code prefix_code)
qed

text \<open>
  C1, amended. A configured proxy sends one request upstream, whose headers are the
  content type and \<^verbatim>\<open>Authorization: Token\<close> with the proxy's own configured token,
  whatever headers the incoming request has. Every request the client issues carries
  \<^verbatim>\<open>Authorization: Bearer\<close> with the client bundle's \<^verbatim>\<open>VITE_REPLICATE_API_TOKEN\<close> (the
  text \<^verbatim>\<open>undefined\<close> when it is unset); the proxy does not pass it on. That header and,
  on the submission, \<^verbatim>\<open>Content-Type: application/json\<close> are the only headers of a client
  request. So no request of the client carries a token in its headers unless the token
  occurs in that \<^verbatim>\<open>Bearer\<close> text, that is, unless it was put into the client bundle (or
  is a piece of the fixed content type): a client built without the variable sends no
  upstream credential.
\<close>

theorem credential_attached_by_proxy:
  "(\<forall>token. apiToken cfg = Some token \<and> token \<noteq> [] \<longrightarrow>
      map req_headers (snd (replicateProxy cfg req upstream)) =
        [[(''Content-Type'', ''application/json''), (''Authorization'', ''Token '' @ token)]])
   \<and> (\<forall>q. Fetch q \<in> set (snd (snd (handleGenerate env st script))) \<longrightarrow>
         map_of (req_headers q) ''Authorization'' =
           Some (''Bearer '' @ (case VITE_REPLICATE_API_TOKEN env of
                                  None \<Rightarrow> ''undefined''
                                | Some t \<Rightarrow> t)))
   \<and> (\<forall>q. Fetch q \<in> set (snd (snd (handleGenerate env st script))) \<longrightarrow>
         req_headers q =
           [(''Content-Type'', ''application/json''),
            (''Authorization'',
             ''Bearer '' @ (case VITE_REPLICATE_API_TOKEN env of
                              None \<Rightarrow> ''undefined''
                            | Some t \<Rightarrow> t))]
         \<or> req_headers q =
           [(''Authorization'',
             ''Bearer '' @ (case VITE_REPLICATE_API_TOKEN env of
                              None \<Rightarrow> ''undefined''
                            | Some t \<Rightarrow> t))])
   \<and> (\<forall>q token.
         Fetch q \<in> set (snd (snd (handleGenerate env st script)))
         \<and> \<not> sublist token (''Bearer '' @ (case VITE_REPLICATE_API_TOKEN env of
                                              None \<Rightarrow> ''undefined''
                                            | Some t \<Rightarrow> t))
         \<and> \<not> sublist token ''application/json''
         \<longrightarrow> \<not> carries_credential token q)"
proof (intro conjI allI impI)
  fix token
  assume "apiToken cfg = Some token \<and> token \<noteq> []"
  then show "map req_headers (snd (replicateProxy cfg req upstream)) =
               [[(''Content-Type'', ''application/json''),
                 (''Authorization'', ''Token '' @ token)]]"
    by (simp add: replicateProxy_def Let_def upstream_request_def
             split: fetch_result.splits sum.splits)
next
  fix q
  assume "Fetch q \<in> set (snd (snd (handleGenerate env st script)))"
  from handleGenerate_headers [OF this]
  have "map_of (req_headers q) ''Authorization'' = Some (bearer env)"
    by auto
  then show "map_of (req_headers q) ''Authorization'' =
               Some (''Bearer '' @ (case VITE_REPLICATE_API_TOKEN env of
                                      None \<Rightarrow> ''undefined''
                                    | Some t \<Rightarrow> t))"
    by (simp add: bearer_def)
next
  fix q
  assume "Fetch q \<in> set (snd (snd (handleGenerate env st script)))"
  from handleGenerate_headers [OF this]
  show "req_headers q =
           [(''Content-Type'', ''application/json''),
            (''Authorization'',
             ''Bearer '' @ (case VITE_REPLICATE_API_TOKEN env of
                              None \<Rightarrow> ''undefined''
                            | Some t \<Rightarrow> t))]
         \<or> req_headers q =
           [(''Authorization'',
             ''Bearer '' @ (case VITE_REPLICATE_API_TOKEN env of
                              None \<Rightarrow> ''undefined''
                            | Some t \<Rightarrow> t))]"
    by (simp add: bearer_def)
next
  fix q token
  assume a: "Fetch q \<in> set (snd (snd (handleGenerate env st script)))
         \<and> \<not> sublist token (''Bearer '' @ (case VITE_REPLICATE_API_TOKEN env of
                                              None \<Rightarrow> ''undefined''
                                            | Some t \<Rightarrow> t))
         \<and> \<not> sublist token ''application/json''"
  then have "\<not> sublist token (bearer env)"
    by (simp add: bearer_def)
  moreover from a have "Fetch q \<in> set (snd (snd (handleGenerate env st script)))"
    by blast
  then have "req_headers q = [(''Content-Type'', ''application/json''),
                              (''Authorization'', bearer env)]
             \<or> req_headers q = [(''Authorization'', bearer env)]"
    by (rule handleGenerate_headers)
  ultimately show "\<not> carries_credential token q"
    using a by (auto simp: carries_credential_def)
qed

theorem credential_attached_by_proxy_witness:
  "apiToken scenario_proxy = Some ''r8_secret'' \<and> ''r8_secret'' \<noteq> []
   \<and> headers scenario_incoming = [(''Authorization'', ''Bearer r8_secret'')]
   \<and> map req_headers (snd (replicateProxy scenario_proxy scenario_incoming scenario_upstream)) =
       [[(''Content-Type'', ''application/json''), (''Authorization'', ''Token r8_secret'')]]
   \<and> Fetch scenario_poll \<in>
       set (snd (snd (handleGenerate scenario_env scenario_state [Resolved scenario_starting])))
   \<and> map_of (req_headers scenario_poll) ''Authorization'' = Some ''Bearer r8_secret''
   \<and> req_headers scenario_poll = [(''Authorization'', ''Bearer r8_secret'')]
   \<and> Fetch scenario_unset_submission \<in>
       set (snd (snd (handleGenerate scenario_unset_env scenario_state [])))
   \<and> VITE_REPLICATE_API_TOKEN scenario_unset_env = None
   \<and> \<not> sublist ''r8_secret'' ''Bearer undefined''
   \<and> \<not> sublist ''r8_secret'' ''application/json''
   \<and> \<not> carries_credential ''r8_secret'' scenario_unset_submission"
proof -
  have a: "apiToken scenario_proxy = Some ''r8_secret''"
    by (simp add: apiToken_def scenario_proxy_def)
  have b: "headers scenario_incoming = [(''Authorization'', ''Bearer r8_secret'')]"
    by (simp add: scenario_incoming_def)
  have c: "Fetch scenario_poll \<in>
             set (snd (snd (handleGenerate scenario_env scenario_state [Resolved scenario_starting])))"
    by (simp add: scenario_run_awaits)
  have d: "VITE_REPLICATE_API_TOKEN scenario_env = Some ''r8_secret''"
    by (simp add: scenario_env_def)
  have e: "req_headers scenario_poll = [(''Authorization'', ''Bearer r8_secret'')]"
    by (simp add: scenario_poll_def poll_request_def bearer_def scenario_env_def)
  have f: "Fetch scenario_unset_submission \<in>
             set (snd (snd (handleGenerate scenario_unset_env scenario_state [])))"
    by (simp add: scenario_unset_run)
  have g: "VITE_REPLICATE_API_TOKEN scenario_unset_env = None"
    by (simp add: scenario_unset_env_def)
  have h: "\<not> sublist ''r8_secret'' ''Bearer undefined''"
    and i: "\<not> sublist ''r8_secret'' ''application/json''"
    by (simp_all add: sublist_code prefix_code)
  from credential_attached_by_proxy
         [of scenario_proxy scenario_incoming scenario_upstream scenario_env scenario_state
            "[Resolved scenario_starting]"]
  have j: "map req_headers (snd (replicateProxy scenario_proxy scenario_incoming scenario_upstream)) =
          [[(''Content-Type'', ''application/json''), (''Authorization'', ''Token r8_secret'')]]"
    and k: "map_of (req_headers scenario_poll) ''Authorization'' = Some ''Bearer r8_secret''"
    using a c d by auto
  from credential_attached_by_proxy
         [of scenario_proxy scenario_incoming scenario_upstream scenario_unset_env scenario_state
            "[]"]
  have "Fetch scenario_unset_submission \<in>
             set (snd (snd (handleGenerate scenario_unset_env scenario_state [])))
         \<and> \<not> sublist ''r8_secret'' (''Bearer '' @ (case VITE_REPLICATE_API_TOKEN scenario_unset_env of
                                              None \<Rightarrow> ''undefined''
                                            | Some t \<Rightarrow> t))
         \<and> \<not> sublist ''r8_secret'' ''application/json''
         \<longrightarrow> \<not> carries_credential ''r8_secret'' scenario_unset_submission"
    by blast
  with f g h i have l: "\<not> carries_credential ''r8_secret'' scenario_unset_submission"
    by simp
  from a b c e f g h i j k l show ?thesis
    by blast
qed

end
